theory Spec2Isabelle
  imports Main "HOL-Library.AList" "HOL-Library.Char_ord" "HOL-Library.List_Lexorder"
begin

section \<open>Company profile storage: backends, auto-detection and manager\<close>

text \<open>
  The development embeds the package \<^verbatim>\<open>carm_company_profile\<close>: the two storage backends
  (\<^verbatim>\<open>storage/local_storage.py\<close>, \<^verbatim>\<open>storage/azure_storage.py\<close>), the abstract interface
  (\<^verbatim>\<open>storage/base.py\<close>) and the manager with its backend auto-detection (\<^verbatim>\<open>manager.py\<close>).

  Conventions of the embedding.
  \<^item> Exceptions are values of the type \<open>error\<close>; the message strings are left out.
  \<^item> A method that mutates the medium takes the state of the medium and returns the
    result together with the state afterwards.
  \<^item> The validated data model \<^verbatim>\<open>CompanyProfile\<close> (package \<^verbatim>\<open>carm_data_models\<close>) and the
    JSON parser are external: they are parameters, collected in the record \<open>collaborators\<close>.
  \<^item> A directory is the list of its entries (file name, content) in the order in which
    the operating system enumerates them; a blob container likewise. Profile IDs are used
    verbatim as file-name stems: the file name \<open>id + ".json"\<close> is one entry of the
    directory \<^verbatim>\<open>profiles_dir\<close> (IDs with path separators are outside this model).
  \<^item> Failures of the medium itself (disk full, permissions, network) are not modelled.
\<close>

subsection \<open>Errors\<close>

datatype error =
    FileNotFoundError
  | ValueError
  | ImportError
  | JSONDecodeError
  | ValidationError
  | ResourceNotFoundError
  | ResourceExistsError

subsection \<open>External collaborators\<close>

text \<open>
  A Python object handed to \<^verbatim>\<open>CompanyProfile.model_validate\<close> is either a \<^verbatim>\<open>dict\<close> with
  string keys or something else. \<open>None\<close> stands for the exception the collaborator raises
  (\<^verbatim>\<open>ValidationError\<close> for validation, \<^verbatim>\<open>JSONDecodeError\<close> for parsing).
\<close>

type_synonym 'v dict = "string \<rightharpoonup> 'v"

datatype 'v pyobj = PyDict "'v dict" | PyOther 'v

record ('p, 'v) collaborators =
  model_validate :: "'v pyobj \<Rightarrow> 'p option"
  model_dump :: "'p \<Rightarrow> 'v dict"
  model_dump_json :: "'p \<Rightarrow> string"
  json_load :: "string \<Rightarrow> 'v pyobj option"


subsection \<open>The file system\<close>

type_synonym directory = "(string \<times> string) list"
type_synonym file_system = "string \<rightharpoonup> directory"
type_synonym path = "string \<times> string"

definition parent :: "path \<Rightarrow> string" where
  "parent p = fst p"

definition name :: "path \<Rightarrow> string" where
  "name p = snd p"

definition dir_exists :: "file_system \<Rightarrow> string \<Rightarrow> bool" where
  "dir_exists fs d = (fs d \<noteq> None)"

definition path_exists :: "file_system \<Rightarrow> path \<Rightarrow> bool" where
  "path_exists fs p =
     (case fs (parent p) of None \<Rightarrow> False | Some es \<Rightarrow> map_of es (name p) \<noteq> None)"

text \<open>\<^verbatim>\<open>mkdir(parents=True, exist_ok=True)\<close>\<close>

definition mkdir :: "file_system \<Rightarrow> string \<Rightarrow> file_system" where
  "mkdir fs d = (case fs d of None \<Rightarrow> fs(d \<mapsto> []) | Some es \<Rightarrow> fs)"

definition read_text :: "file_system \<Rightarrow> path \<Rightarrow> error + string" where
  "read_text fs p =
     (case fs (parent p) of
        None \<Rightarrow> Inl FileNotFoundError
      | Some es \<Rightarrow>
          (case map_of es (name p) of None \<Rightarrow> Inl FileNotFoundError | Some c \<Rightarrow> Inr c))"

text \<open>\<^verbatim>\<open>open(p, 'w')\<close> followed by one \<^verbatim>\<open>write\<close>: the file is created or truncated.\<close>

definition write_text :: "file_system \<Rightarrow> path \<Rightarrow> string \<Rightarrow> error + file_system" where
  "write_text fs p c =
     (case fs (parent p) of
        None \<Rightarrow> Inl FileNotFoundError
      | Some es \<Rightarrow> Inr (fs(parent p \<mapsto> AList.update (name p) c es)))"

definition unlink :: "file_system \<Rightarrow> path \<Rightarrow> error + file_system" where
  "unlink fs p =
     (case fs (parent p) of
        None \<Rightarrow> Inl FileNotFoundError
      | Some es \<Rightarrow>
          (if map_of es (name p) = None then Inl FileNotFoundError
           else Inr (fs(parent p \<mapsto> AList.delete (name p) es))))"

definition endswith :: "string \<Rightarrow> string \<Rightarrow> bool" where
  "endswith s suf = (length suf \<le> length s \<and> drop (length s - length suf) s = suf)"

text \<open>
  \<^verbatim>\<open>Path.glob("*.json")\<close>: the entries of the directory itself (not recursive) whose name
  ends in \<^verbatim>\<open>.json\<close>; pathlib's \<^verbatim>\<open>*\<close> also matches names that begin with a dot.
\<close>

definition glob_json :: "file_system \<Rightarrow> string \<Rightarrow> path list" where
  "glob_json fs d =
     (case fs d of
        None \<Rightarrow> []
      | Some es \<Rightarrow> map (\<lambda>n. (d, n)) (filter (\<lambda>n. endswith n ''.json'') (map fst es)))"

text \<open>\<^verbatim>\<open>str.rfind\<close> for one character: the last index, or \<open>-1\<close>.\<close>

fun rfind :: "string \<Rightarrow> char \<Rightarrow> int" where
  "rfind [] c = - 1"
| "rfind (x # xs) c =
     (let r = rfind xs c in if 0 \<le> r then r + 1 else if x = c then 0 else - 1)"

text \<open>
  \<^verbatim>\<open>PurePath.stem\<close>:
  \<^verbatim>\<open>i = name.rfind('.'); return name[:i] if 0 < i < len(name) - 1 else name\<close>
\<close>

definition stem :: "path \<Rightarrow> string" where
  "stem p =
     (let i = rfind (name p) (CHR ''.'')
      in if 0 < i \<and> i < int (length (name p)) - 1 then take (nat i) (name p) else name p)"

subsection \<open>The local backend\<close>

record LocalFileStorage =
  profiles_dir :: string

definition LocalFileStorage_init :: "file_system \<Rightarrow> string \<Rightarrow> LocalFileStorage \<times> file_system" where
  "LocalFileStorage_init fs dir = (\<lparr>profiles_dir = dir\<rparr>, mkdir fs dir)"

definition get_file_path :: "LocalFileStorage \<Rightarrow> string \<Rightarrow> path" where
  "get_file_path self profile_id = (profiles_dir self, profile_id @ ''.json'')"

definition LocalFileStorage_load ::
  "('p, 'v) collaborators \<Rightarrow> LocalFileStorage \<Rightarrow> file_system \<Rightarrow> string \<Rightarrow> error + 'p" where
  "LocalFileStorage_load M self fs profile_id =
     (let file_path = get_file_path self profile_id
      in if \<not> path_exists fs file_path then Inl FileNotFoundError
         else
           (case read_text fs file_path of
              Inl e \<Rightarrow> Inl e
            | Inr text \<Rightarrow>
                (case json_load M text of
                   None \<Rightarrow> Inl JSONDecodeError
                 | Some data \<Rightarrow>
                     (case model_validate M data of
                        None \<Rightarrow> Inl ValidationError
                      | Some profile \<Rightarrow> Inr profile))))"

definition LocalFileStorage_save ::
  "('p, 'v) collaborators \<Rightarrow> LocalFileStorage \<Rightarrow> file_system \<Rightarrow> string \<Rightarrow> 'p
     \<Rightarrow> (error + unit) \<times> file_system" where
  "LocalFileStorage_save M self fs profile_id profile =
     (let file_path = get_file_path self profile_id;
          fs1 = mkdir fs (parent file_path)
      in case write_text fs1 file_path (model_dump_json M profile) of
           Inl e \<Rightarrow> (Inl e, fs1)
         | Inr fs2 \<Rightarrow> (Inr (), fs2))"

definition LocalFileStorage_delete ::
  "LocalFileStorage \<Rightarrow> file_system \<Rightarrow> string \<Rightarrow> (error + unit) \<times> file_system" where
  "LocalFileStorage_delete self fs profile_id =
     (let file_path = get_file_path self profile_id
      in if \<not> path_exists fs file_path then (Inl FileNotFoundError, fs)
         else
           (case unlink fs file_path of
              Inl e \<Rightarrow> (Inl e, fs)
            | Inr fs1 \<Rightarrow> (Inr (), fs1)))"

definition LocalFileStorage_exists :: "LocalFileStorage \<Rightarrow> file_system \<Rightarrow> string \<Rightarrow> bool" where
  "LocalFileStorage_exists self fs profile_id = path_exists fs (get_file_path self profile_id)"

definition LocalFileStorage_list :: "LocalFileStorage \<Rightarrow> file_system \<Rightarrow> string list" where
  "LocalFileStorage_list self fs =
     (if \<not> dir_exists fs (profiles_dir self) then []
      else sort (map stem (glob_json fs (profiles_dir self))))"

subsection \<open>The blob service\<close>

text \<open>
  A storage account is a map from container names to containers; a container is the list
  of its blobs (blob name, content). The calls of the client library are modelled on
  this state; a missing container or blob is the library's \<^verbatim>\<open>ResourceNotFoundError\<close>.
\<close>

type_synonym container = "(string \<times> string) list"
type_synonym blob_service = "string \<rightharpoonup> container"

definition download_blob :: "blob_service \<Rightarrow> string \<Rightarrow> string \<Rightarrow> error + string" where
  "download_blob svc cont blob =
     (case svc cont of
        None \<Rightarrow> Inl ResourceNotFoundError
      | Some bs \<Rightarrow>
          (case map_of bs blob of None \<Rightarrow> Inl ResourceNotFoundError | Some c \<Rightarrow> Inr c))"

text \<open>\<^verbatim>\<open>upload_blob(data, overwrite=True)\<close>\<close>

definition upload_blob :: "blob_service \<Rightarrow> string \<Rightarrow> string \<Rightarrow> string \<Rightarrow> error + blob_service" where
  "upload_blob svc cont blob c =
     (case svc cont of
        None \<Rightarrow> Inl ResourceNotFoundError
      | Some bs \<Rightarrow> Inr (svc(cont \<mapsto> AList.update blob c bs)))"

definition delete_blob :: "blob_service \<Rightarrow> string \<Rightarrow> string \<Rightarrow> error + blob_service" where
  "delete_blob svc cont blob =
     (case svc cont of
        None \<Rightarrow> Inl ResourceNotFoundError
      | Some bs \<Rightarrow>
          (if map_of bs blob = None then Inl ResourceNotFoundError
           else Inr (svc(cont \<mapsto> AList.delete blob bs))))"

definition blob_exists :: "blob_service \<Rightarrow> string \<Rightarrow> string \<Rightarrow> bool" where
  "blob_exists svc cont blob =
     (case svc cont of None \<Rightarrow> False | Some bs \<Rightarrow> map_of bs blob \<noteq> None)"

definition list_blobs :: "blob_service \<Rightarrow> string \<Rightarrow> error + string list" where
  "list_blobs svc cont =
     (case svc cont of None \<Rightarrow> Inl ResourceNotFoundError | Some bs \<Rightarrow> Inr (map fst bs))"

definition create_container :: "blob_service \<Rightarrow> string \<Rightarrow> error + blob_service" where
  "create_container svc cont =
     (case svc cont of None \<Rightarrow> Inr (svc(cont \<mapsto> [])) | Some bs \<Rightarrow> Inl ResourceExistsError)"

subsection \<open>The blob backend\<close>

record AzureBlobStorage =
  connection_string :: string
  container_name :: string
  timeout_seconds :: int

text \<open>
  \<^verbatim>\<open>_ensure_container_exists\<close>. The lookup \<^verbatim>\<open>get_container_client\<close> of the client library
  is the parameter \<open>get_container_client\<close>: what it observes is not decided by this code.
\<close>

definition ensure_container_exists ::
  "(blob_service \<Rightarrow> string \<Rightarrow> error + unit) \<Rightarrow> AzureBlobStorage \<Rightarrow> blob_service
     \<Rightarrow> (error + unit) \<times> blob_service" where
  "ensure_container_exists get_container_client self svc =
     (case get_container_client svc (container_name self) of
        Inr u \<Rightarrow> (Inr (), svc)
      | Inl e \<Rightarrow>
          (if e = ResourceNotFoundError then
             (case create_container svc (container_name self) of
                Inl e' \<Rightarrow> (Inl e', svc)
              | Inr svc1 \<Rightarrow> (Inr (), svc1))
           else (Inl e, svc)))"

definition AzureBlobStorage_init ::
  "bool \<Rightarrow> (blob_service \<Rightarrow> string \<Rightarrow> error + unit) \<Rightarrow> blob_service
     \<Rightarrow> string \<Rightarrow> string \<Rightarrow> int \<Rightarrow> (error + AzureBlobStorage) \<times> blob_service" where
  "AzureBlobStorage_init AZURE_AVAILABLE get_container_client svc conn cont timeout =
     (if \<not> AZURE_AVAILABLE then (Inl ImportError, svc)
      else
        (let self = \<lparr>connection_string = conn, container_name = cont, timeout_seconds = timeout\<rparr>
         in case ensure_container_exists get_container_client self svc of
              (Inl e, svc1) \<Rightarrow> (Inl e, svc1)
            | (Inr u, svc1) \<Rightarrow> (Inr self, svc1)))"

definition get_blob_name :: "string \<Rightarrow> string" where
  "get_blob_name profile_id = profile_id @ ''.json''"

definition AzureBlobStorage_load ::
  "('p, 'v) collaborators \<Rightarrow> AzureBlobStorage \<Rightarrow> blob_service \<Rightarrow> string \<Rightarrow> error + 'p" where
  "AzureBlobStorage_load M self svc profile_id =
     (case download_blob svc (container_name self) (get_blob_name profile_id) of
        Inl e \<Rightarrow> (if e = ResourceNotFoundError then Inl FileNotFoundError else Inl e)
      | Inr content \<Rightarrow>
          (case json_load M content of
             None \<Rightarrow> Inl JSONDecodeError
           | Some data \<Rightarrow>
               (case model_validate M data of
                  None \<Rightarrow> Inl ValidationError
                | Some profile \<Rightarrow> Inr profile)))"

definition AzureBlobStorage_save ::
  "('p, 'v) collaborators \<Rightarrow> AzureBlobStorage \<Rightarrow> blob_service \<Rightarrow> string \<Rightarrow> 'p
     \<Rightarrow> (error + unit) \<times> blob_service" where
  "AzureBlobStorage_save M self svc profile_id profile =
     (let json_data = model_dump_json M profile
      in case upload_blob svc (container_name self) (get_blob_name profile_id) json_data of
           Inl e \<Rightarrow> (Inl e, svc)
         | Inr svc1 \<Rightarrow> (Inr (), svc1))"

definition AzureBlobStorage_delete ::
  "AzureBlobStorage \<Rightarrow> blob_service \<Rightarrow> string \<Rightarrow> (error + unit) \<times> blob_service" where
  "AzureBlobStorage_delete self svc profile_id =
     (case delete_blob svc (container_name self) (get_blob_name profile_id) of
        Inl e \<Rightarrow> (if e = ResourceNotFoundError then (Inl FileNotFoundError, svc) else (Inl e, svc))
      | Inr svc1 \<Rightarrow> (Inr (), svc1))"

definition AzureBlobStorage_exists :: "AzureBlobStorage \<Rightarrow> blob_service \<Rightarrow> string \<Rightarrow> bool" where
  "AzureBlobStorage_exists self svc profile_id =
     blob_exists svc (container_name self) (get_blob_name profile_id)"

text \<open>\<^verbatim>\<open>blob.name[:-5]\<close> on a name that ends in \<^verbatim>\<open>.json\<close>\<close>

definition AzureBlobStorage_list :: "AzureBlobStorage \<Rightarrow> blob_service \<Rightarrow> error + string list" where
  "AzureBlobStorage_list self svc =
     (case list_blobs svc (container_name self) of
        Inl e \<Rightarrow> Inl e
      | Inr names \<Rightarrow>
          Inr (sort (map (\<lambda>n. take (length n - 5) n) (filter (\<lambda>n. endswith n ''.json'') names))))"

subsection \<open>The storage interface\<close>

text \<open>
  \<^verbatim>\<open>BaseStorage\<close>: an object with the five abstract methods, over the state \<open>'st\<close> of its
  medium. The two backends are instances.
\<close>

record ('st, 'p) BaseStorage =
  load :: "'st \<Rightarrow> string \<Rightarrow> error + 'p"
  save :: "'st \<Rightarrow> string \<Rightarrow> 'p \<Rightarrow> (error + unit) \<times> 'st"
  delete :: "'st \<Rightarrow> string \<Rightarrow> (error + unit) \<times> 'st"
  exists :: "'st \<Rightarrow> string \<Rightarrow> bool"
  list :: "'st \<Rightarrow> error + string list"

definition local_backend ::
  "('p, 'v) collaborators \<Rightarrow> LocalFileStorage \<Rightarrow> (file_system, 'p) BaseStorage" where
  "local_backend M self =
     \<lparr>load = LocalFileStorage_load M self,
      save = LocalFileStorage_save M self,
      delete = LocalFileStorage_delete self,
      exists = LocalFileStorage_exists self,
      list = (\<lambda>fs. Inr (LocalFileStorage_list self fs))\<rparr>"

definition azure_backend ::
  "('p, 'v) collaborators \<Rightarrow> AzureBlobStorage \<Rightarrow> (blob_service, 'p) BaseStorage" where
  "azure_backend M self =
     \<lparr>load = AzureBlobStorage_load M self,
      save = AzureBlobStorage_save M self,
      delete = AzureBlobStorage_delete self,
      exists = AzureBlobStorage_exists self,
      list = AzureBlobStorage_list self\<rparr>"

subsection \<open>The manager\<close>

definition ProfileManager_create ::
  "('p, 'v) collaborators \<Rightarrow> ('st, 'p) BaseStorage \<Rightarrow> 'st \<Rightarrow> string \<Rightarrow> 'v dict
     \<Rightarrow> (error + 'p) \<times> 'st" where
  "ProfileManager_create M storage s profile_id profile_data =
     (if exists storage s profile_id then (Inl ValueError, s)
      else
        (case model_validate M (PyDict profile_data) of
           None \<Rightarrow> (Inl ValidationError, s)
         | Some profile \<Rightarrow>
             (case save storage s profile_id profile of
                (Inl e, s1) \<Rightarrow> (Inl e, s1)
              | (Inr u, s1) \<Rightarrow> (Inr profile, s1))))"


subsection \<open>Backend auto-detection\<close>

type_synonym environ = "string \<rightharpoonup> string"

text \<open>\<^verbatim>\<open>os.getenv(key, default)\<close>\<close>

definition getenv :: "environ \<Rightarrow> string \<Rightarrow> string \<Rightarrow> string" where
  "getenv env key dflt = (case env key of None \<Rightarrow> dflt | Some v \<Rightarrow> v)"

text \<open>\<^verbatim>\<open>str.lower\<close> on ASCII text.\<close>

definition lower_char :: "char \<Rightarrow> char" where
  "lower_char c =
     (case map_of (zip ''ABCDEFGHIJKLMNOPQRSTUVWXYZ'' ''abcdefghijklmnopqrstuvwxyz'') c of
        None \<Rightarrow> c
      | Some l \<Rightarrow> l)"

definition lower :: "string \<Rightarrow> string" where
  "lower s = map lower_char s"

text \<open>
  \<^verbatim>\<open>int(s)\<close> on ASCII text: white space around, an optional sign, then decimal digits,
  where single underscores may stand between digits. \<open>None\<close> is \<^verbatim>\<open>ValueError\<close>.
\<close>

definition is_space :: "char \<Rightarrow> bool" where
  "is_space c = (c \<in> set [CHR '' '', CHR 0x09, CHR 0x0A, CHR 0x0B, CHR 0x0C, CHR 0x0D])"

definition strip :: "string \<Rightarrow> string" where
  "strip s = rev (dropWhile is_space (rev (dropWhile is_space s)))"

definition digit_value :: "char \<Rightarrow> int option" where
  "digit_value c = map_of (zip ''0123456789'' [0, 1, 2, 3, 4, 5, 6, 7, 8, 9]) c"

fun parse_digits :: "bool \<Rightarrow> int \<Rightarrow> string \<Rightarrow> int option" where
  "parse_digits after_digit acc [] = (if after_digit then Some acc else None)"
| "parse_digits after_digit acc (c # cs) =
     (case digit_value c of
        Some d \<Rightarrow> parse_digits True (10 * acc + d) cs
      | None \<Rightarrow>
          (if c = CHR ''_'' \<and> after_digit \<and> cs \<noteq> [] then parse_digits False acc cs
           else None))"

definition py_int :: "string \<Rightarrow> int option" where
  "py_int s =
     (case strip s of
        [] \<Rightarrow> None
      | c # cs \<Rightarrow>
          (if c = CHR ''-'' then map_option uminus (parse_digits False 0 cs)
           else if c = CHR ''+'' then parse_digits False 0 cs
           else parse_digits False 0 (c # cs)))"

text \<open>
  Availability of the client library. \<^verbatim>\<open>storage/azure_storage.py\<close> imports the library
  inside \<^verbatim>\<open>try ... except ImportError\<close> and records the outcome in its own flag
  \<^verbatim>\<open>AZURE_AVAILABLE\<close>, the one \<^verbatim>\<open>AzureBlobStorage.__init__\<close> tests. The package
  \<^verbatim>\<open>storage/__init__.py\<close> sets a flag of the same name by importing that module inside
  \<^verbatim>\<open>try ... except ImportError\<close>; it is this second flag that \<^verbatim>\<open>manager.py\<close> imports.
  The argument \<open>sdk_installed\<close> says whether the library can be imported.
\<close>

definition import_azure_sdk :: "bool \<Rightarrow> error + unit" where
  "import_azure_sdk sdk_installed = (if sdk_installed then Inr () else Inl ImportError)"

text \<open>Loading the module \<^verbatim>\<open>azure_storage\<close>; the result is the module's flag.\<close>

definition import_azure_storage :: "bool \<Rightarrow> error + bool" where
  "import_azure_storage sdk_installed =
     (case import_azure_sdk sdk_installed of
        Inr u \<Rightarrow> Inr True
      | Inl e \<Rightarrow> (if e = ImportError then Inr False else Inl e))"

text \<open>Loading the package \<^verbatim>\<open>storage\<close>; the result is the package's flag.\<close>

definition import_storage :: "bool \<Rightarrow> error + bool" where
  "import_storage sdk_installed =
     (case import_azure_storage sdk_installed of
        Inr m \<Rightarrow> Inr True
      | Inl e \<Rightarrow> (if e = ImportError then Inr False else Inl e))"

datatype storage = Local LocalFileStorage | Azure AzureBlobStorage

text \<open>
  \<^verbatim>\<open>_auto_detect_storage\<close>. The process environment, the availability of the client
  library and the library's container lookup are arguments; the media are the file system
  and the storage account that the connection string designates. The imports at the head
  of \<^verbatim>\<open>manager.py\<close> come first: \<open>AZURE_AVAILABLE\<close> is the flag of the package, the
  constructor of the blob backend tests the flag of its module. The two \<^verbatim>\<open>print\<close> calls
  are left out.
\<close>

definition auto_detect_storage ::
  "bool \<Rightarrow> (blob_service \<Rightarrow> string \<Rightarrow> error + unit) \<Rightarrow> environ
     \<Rightarrow> file_system \<times> blob_service \<Rightarrow> (error + storage) \<times> (file_system \<times> blob_service)" where
  "auto_detect_storage sdk_installed get_container_client env w =
     (case import_storage sdk_installed of
        Inl e \<Rightarrow> (Inl e, w)
      | Inr AZURE_AVAILABLE \<Rightarrow>
     (case import_azure_storage sdk_installed of
        Inl e \<Rightarrow> (Inl e, w)
      | Inr module_AZURE_AVAILABLE \<Rightarrow>
     (let environment = lower (getenv env ''ENVIRONMENT'' ''development'');
          azure_connection_string = env ''AZURE_STORAGE_CONNECTION_STRING'';
          azure_container_name = getenv env ''AZURE_STORAGE_CONTAINER_NAME'' ''company-profiles''
      in if environment = ''production''
            \<and> azure_connection_string \<noteq> None \<and> azure_connection_string \<noteq> Some []
            \<and> AZURE_AVAILABLE
         then
           (case py_int (getenv env ''AZURE_STORAGE_TIMEOUT_SECONDS'' ''30'') of
              None \<Rightarrow> (Inl ValueError, w)
            | Some timeout \<Rightarrow>
                (case AzureBlobStorage_init module_AZURE_AVAILABLE get_container_client (snd w)
                        (the azure_connection_string) azure_container_name timeout of
                   (Inl e, svc1) \<Rightarrow> (Inl e, (fst w, svc1))
                 | (Inr st, svc1) \<Rightarrow> (Inr (Azure st), (fst w, svc1))))
         else
           (let profiles_dir = getenv env ''PROFILES_DIR'' ''./profiles''
            in case LocalFileStorage_init (fst w) profiles_dir of
                 (st, fs1) \<Rightarrow> (Inr (Local st), (fs1, snd w))))))"

text \<open>
  The decision rule in the words of the specification: the environment name (default
  \<^verbatim>\<open>development\<close>, lower-cased) is \<^verbatim>\<open>production\<close>, the connection credential is set
  and not empty, and the client library is available at run time.
\<close>

definition spec_blob_conditions :: "bool \<Rightarrow> environ \<Rightarrow> bool" where
  "spec_blob_conditions sdk_installed env =
     (lower (getenv env ''ENVIRONMENT'' ''development'') = ''production''
      \<and> env ''AZURE_STORAGE_CONNECTION_STRING'' \<noteq> None
      \<and> env ''AZURE_STORAGE_CONNECTION_STRING'' \<noteq> Some []
      \<and> sdk_installed)"

subsection \<open>A client's sequence of calls\<close>



subsection \<open>A small data model for concrete runs\<close>

text \<open>
  An instance of the collaborators used where a property is evaluated on concrete data:
  a profile is a company name with a tagline, serialised as \<^verbatim>\<open>name|tagline\<close>.
\<close>

definition sample_validate :: "string pyobj \<Rightarrow> (string \<times> string) option" where
  "sample_validate obj =
     (case obj of
        PyOther x \<Rightarrow> None
      | PyDict d \<Rightarrow>
          (case d ''name'' of
             None \<Rightarrow> None
           | Some n \<Rightarrow> Some (n, (case d ''tagline'' of None \<Rightarrow> [] | Some t \<Rightarrow> t))))"

definition sample_dump :: "string \<times> string \<Rightarrow> string dict" where
  "sample_dump p = [''name'' \<mapsto> fst p, ''tagline'' \<mapsto> snd p]"

definition sample_dump_json :: "string \<times> string \<Rightarrow> string" where
  "sample_dump_json p = fst p @ ''|'' @ snd p"

definition sample_json_load :: "string \<Rightarrow> string pyobj option" where
  "sample_json_load s =
     (if CHR ''|'' \<in> set s
      then Some (PyDict [''name'' \<mapsto> takeWhile (\<lambda>c. c \<noteq> CHR ''|'') s,
                         ''tagline'' \<mapsto> tl (dropWhile (\<lambda>c. c \<noteq> CHR ''|'') s)])
      else None)"

definition sample_model :: "(string \<times> string, string) collaborators" where
  "sample_model =
     \<lparr>model_validate = sample_validate,
      model_dump = sample_dump,
      model_dump_json = sample_dump_json,
      json_load = sample_json_load\<rparr>"

text \<open>A container lookup that reports a missing container.\<close>

definition sample_get_container_client :: "blob_service \<Rightarrow> string \<Rightarrow> error + unit" where
  "sample_get_container_client svc cont =
     (case svc cont of None \<Rightarrow> Inl ResourceNotFoundError | Some bs \<Rightarrow> Inr ())"

section \<open>Properties\<close>

subsection \<open>Storage operations in terms of the medium\<close>

lemma local_save_result:
  "LocalFileStorage_save M self fs i p =
     (Inr (), fs(profiles_dir self \<mapsto>
        AList.update (i @ ''.json'') (model_dump_json M p)
          (case fs (profiles_dir self) of None \<Rightarrow> [] | Some es \<Rightarrow> es)))"
  by (simp add: LocalFileStorage_save_def get_file_path_def mkdir_def write_text_def
        parent_def name_def Let_def split: option.splits)

lemma local_exists_conv:
  "LocalFileStorage_exists self fs i =
     (case fs (profiles_dir self) of None \<Rightarrow> False | Some es \<Rightarrow> map_of es (i @ ''.json'') \<noteq> None)"
  by (simp add: LocalFileStorage_exists_def path_exists_def get_file_path_def parent_def name_def
        split: option.splits)

lemma local_load_conv:
  "LocalFileStorage_load M self fs i =
     (case fs (profiles_dir self) of
        None \<Rightarrow> Inl FileNotFoundError
      | Some es \<Rightarrow>
          (case map_of es (i @ ''.json'') of
             None \<Rightarrow> Inl FileNotFoundError
           | Some c \<Rightarrow>
               (case json_load M c of
                  None \<Rightarrow> Inl JSONDecodeError
                | Some d \<Rightarrow>
                    (case model_validate M d of
                       None \<Rightarrow> Inl ValidationError
                     | Some q \<Rightarrow> Inr q))))"
  by (simp add: LocalFileStorage_load_def path_exists_def read_text_def get_file_path_def
        parent_def name_def Let_def split: option.splits)


text \<open>
  Claim C1 (local backend). A save never fails; afterwards the ID exists, and loading it
  returns the saved profile whenever the collaborators read the profile's own
  serialisation back as the same profile (parsing \<open>model_dump_json p\<close> and validating
  the result gives \<open>p\<close>).
\<close>

theorem save_then_load:
  "fst (LocalFileStorage_save M self fs i p) = Inr ()
   \<and> LocalFileStorage_exists self (snd (LocalFileStorage_save M self fs i p)) i
   \<and> (json_load M (model_dump_json M p) = Some d \<and> model_validate M d = Some p
        \<longrightarrow> LocalFileStorage_load M self (snd (LocalFileStorage_save M self fs i p)) i = Inr p)"
  by (simp add: local_save_result local_exists_conv local_load_conv update_conv')

theorem save_then_load_witness:
  "sample_json_load (sample_dump_json (''Acme'', ''Great''))
     = Some (PyDict [''name'' \<mapsto> ''Acme'', ''tagline'' \<mapsto> ''Great''])
   \<and> sample_validate (PyDict [''name'' \<mapsto> ''Acme'', ''tagline'' \<mapsto> ''Great''])
       = Some (''Acme'', ''Great'')
   \<and> LocalFileStorage_load sample_model \<lparr>profiles_dir = ''./profiles''\<rparr>
        (snd (LocalFileStorage_save sample_model \<lparr>profiles_dir = ''./profiles''\<rparr> Map.empty
                ''acme'' (''Acme'', ''Great'')))
        ''acme''
       = Inr (''Acme'', ''Great'')"
  using save_then_load [where M = sample_model and p = "(''Acme'', ''Great'')"
      and d = "PyDict [''name'' \<mapsto> ''Acme'', ''tagline'' \<mapsto> ''Great'']"
      and self = "\<lparr>profiles_dir = ''./profiles''\<rparr>" and fs = Map.empty and i = "''acme''"]
  by (simp add: sample_model_def sample_validate_def sample_dump_json_def sample_json_load_def)

text \<open>
  Claim C7. The local load raises \<^verbatim>\<open>FileNotFoundError\<close> exactly when the file
  \<^verbatim>\<open>profiles_dir/<id>.json\<close> is absent. When the file is there with content \<open>c\<close>, the
  result is that of parsing and validating \<open>c\<close>: a parse failure is \<^verbatim>\<open>JSONDecodeError\<close>,
  a validation failure is \<^verbatim>\<open>ValidationError\<close>, neither becomes \<^verbatim>\<open>FileNotFoundError\<close>.
\<close>

theorem load_not_found_iff:
  "(LocalFileStorage_load M self fs i = Inl FileNotFoundError)
     = (\<not> path_exists fs (get_file_path self i))
   \<and> (read_text fs (get_file_path self i) = Inr c \<longrightarrow>
        LocalFileStorage_load M self fs i =
          (case json_load M c of
             None \<Rightarrow> Inl JSONDecodeError
           | Some d \<Rightarrow>
               (case model_validate M d of None \<Rightarrow> Inl ValidationError | Some q \<Rightarrow> Inr q)))"
  by (auto simp: local_load_conv path_exists_def read_text_def get_file_path_def parent_def
        name_def split: option.splits)

theorem load_not_found_iff_witness:
  "read_text [''./profiles'' \<mapsto> [(''acme.json'', ''garbage'')]]
      (get_file_path \<lparr>profiles_dir = ''./profiles''\<rparr> ''acme'') = Inr ''garbage''
   \<and> LocalFileStorage_load sample_model \<lparr>profiles_dir = ''./profiles''\<rparr>
        [''./profiles'' \<mapsto> [(''acme.json'', ''garbage'')]] ''acme'' = Inl JSONDecodeError"
  using load_not_found_iff [where M = sample_model and c = "''garbage''"
      and self = "\<lparr>profiles_dir = ''./profiles''\<rparr>"
      and fs = "[''./profiles'' \<mapsto> [(''acme.json'', ''garbage'')]]" and i = "''acme''"]
  by (simp add: sample_model_def sample_json_load_def read_text_def get_file_path_def parent_def name_def)












subsection \<open>Listing\<close>

lemma rfind_lower: "rfind xs c < 0 \<Longrightarrow> rfind xs c = - 1"
  by (induction xs) (auto simp: Let_def split: if_splits)

lemma rfind_append:
  "rfind (xs @ ys) c = (if 0 \<le> rfind ys c then int (length xs) + rfind ys c else rfind xs c)"
proof (induction xs)
  case Nil
  then show ?case using rfind_lower [of ys c] by auto
next
  case (Cons x xs)
  then show ?case by (auto simp: Let_def)
qed

lemma rfind_json: "rfind (i @ ''.json'') (CHR ''.'') = int (length i)"
  by (simp add: rfind_append)

lemma stem_json: "i \<noteq> [] \<Longrightarrow> stem (d, i @ ''.json'') = i"
  by (simp add: stem_def name_def rfind_json)

lemma stem_dot_json: "stem (d, ''.json'') = ''.json''"
  by (simp add: stem_def name_def)

lemma endswith_json_iff: "endswith n ''.json'' = (\<exists>i. n = i @ ''.json'')"
proof
  assume e: "endswith n ''.json''"
  have len: "length ''.json'' = (5::nat)" by simp
  from e have "drop (length n - length ''.json'') n = ''.json''"
    unfolding endswith_def by (rule conjunct2)
  then have dr: "drop (length n - 5) n = ''.json''" unfolding len .
  have "take (length n - 5) n @ drop (length n - 5) n = n"
    by (rule append_take_drop_id)
  then have "take (length n - 5) n @ ''.json'' = n" unfolding dr .
  then show "\<exists>i. n = i @ ''.json''" by (intro exI) (rule sym)
next
  assume "\<exists>i. n = i @ ''.json''"
  then obtain i where "n = i @ ''.json''" ..
  then show "endswith n ''.json''" by (simp add: endswith_def)
qed

lemma strip_json_list:
  assumes "distinct names"
  shows "distinct (map (\<lambda>n. take (length n - 5) n) (filter (\<lambda>n. endswith n ''.json'') names))"
    and "set (map (\<lambda>n. take (length n - 5) n) (filter (\<lambda>n. endswith n ''.json'') names))
           = {i. i @ ''.json'' \<in> set names}"
proof -
  have "inj_on (\<lambda>n. take (length n - 5) n) (set (filter (\<lambda>n. endswith n ''.json'') names))"
    by (rule inj_onI) (auto simp: endswith_json_iff)
  with assms show "distinct (map (\<lambda>n. take (length n - 5) n) (filter (\<lambda>n. endswith n ''.json'') names))"
    by (simp add: distinct_map)
  show "set (map (\<lambda>n. take (length n - 5) n) (filter (\<lambda>n. endswith n ''.json'') names))
           = {i. i @ ''.json'' \<in> set names}"
  proof (intro set_eqI iffI)
    fix i
    assume "i \<in> set (map (\<lambda>n. take (length n - 5) n) (filter (\<lambda>n. endswith n ''.json'') names))"
    then show "i \<in> {i. i @ ''.json'' \<in> set names}"
      by (auto simp: endswith_json_iff)
  next
    fix i
    assume "i \<in> {i. i @ ''.json'' \<in> set names}"
    then have "i @ ''.json'' \<in> set (filter (\<lambda>n. endswith n ''.json'') names)"
      by (auto simp: endswith_json_iff)
    then have "take (length (i @ ''.json'') - 5) (i @ ''.json'')
        \<in> (\<lambda>n. take (length n - 5) n) ` set (filter (\<lambda>n. endswith n ''.json'') names)"
      by (rule imageI)
    then show "i \<in> set (map (\<lambda>n. take (length n - 5) n) (filter (\<lambda>n. endswith n ''.json'') names))"
      by simp
  qed
qed

lemma azure_list_correct:
  assumes "svc (container_name az) = Some bs" and "distinct (map fst bs)"
  shows "\<exists>ids. AzureBlobStorage_list az svc = Inr ids \<and> sorted ids \<and> distinct ids
           \<and> set ids = {i. AzureBlobStorage_exists az svc i}"
proof -
  have "{i. i @ ''.json'' \<in> set (map fst bs)} = {i. AzureBlobStorage_exists az svc i}"
    using assms(1)
    by (auto simp: AzureBlobStorage_exists_def blob_exists_def get_blob_name_def
          map_of_eq_None_iff)
  then show ?thesis
    using assms(1) strip_json_list [OF assms(2)]
    by (simp add: AzureBlobStorage_list_def list_blobs_def)
qed

lemma local_list_correct:
  assumes "fs (profiles_dir self) = Some es" and "distinct (map fst es)"
    and "''.json'' \<notin> fst ` set es"
  shows "sorted (LocalFileStorage_list self fs) \<and> distinct (LocalFileStorage_list self fs)
           \<and> set (LocalFileStorage_list self fs) = {i. LocalFileStorage_exists self fs i}"
proof -
  let ?xs = "filter (\<lambda>n. endswith n ''.json'') (map fst es)"
  let ?f = "\<lambda>n. take (length n - 5) n"
  have st: "stem (profiles_dir self, n) = ?f n" if "n \<in> set ?xs" for n
  proof -
    from that have "endswith n ''.json''" and m: "n \<in> set (map fst es)" by simp_all
    then obtain i where n: "n = i @ ''.json''" unfolding endswith_json_iff by blast
    from assms(3) have nj: "''.json'' \<notin> set (map fst es)" by simp
    from m nj have "n \<noteq> ''.json''" by blast
    with n have "i \<noteq> []" by auto
    then show ?thesis by (simp add: n stem_json)
  qed
  have g: "glob_json fs (profiles_dir self) = map (\<lambda>n. (profiles_dir self, n)) ?xs"
    using assms(1) by (simp add: glob_json_def)
  have "map stem (map (\<lambda>n. (profiles_dir self, n)) ?xs)
          = map (\<lambda>n. stem (profiles_dir self, n)) ?xs"
    by (simp only: map_map comp_def)
  also have "\<dots> = map ?f ?xs"
    by (rule map_cong [OF refl]) (erule st)
  finally have m: "map stem (glob_json fs (profiles_dir self)) = map ?f ?xs"
    by (simp only: g)
  have d: "dir_exists fs (profiles_dir self)"
    using assms(1) by (simp add: dir_exists_def)
  have l: "LocalFileStorage_list self fs = sort (map ?f ?xs)"
    unfolding LocalFileStorage_list_def using d by (simp add: m)
  have e: "{i. i @ ''.json'' \<in> set (map fst es)} = {i. LocalFileStorage_exists self fs i}"
    using assms(1)
    by (auto simp: LocalFileStorage_exists_def path_exists_def get_file_path_def parent_def
          name_def map_of_eq_None_iff)
  from strip_json_list [OF assms(2)]
  have "distinct (map ?f ?xs)" and "set (map ?f ?xs) = {i. i @ ''.json'' \<in> set (map fst es)}"
    by blast+
  with e show ?thesis
    unfolding l by simp
qed

lemma local_list_no_directory:
  "fs (profiles_dir self) = None \<Longrightarrow>
     LocalFileStorage_list self fs = [] \<and> \<not> LocalFileStorage_exists self fs i"
  by (simp add: LocalFileStorage_list_def dir_exists_def LocalFileStorage_exists_def
        path_exists_def get_file_path_def parent_def)


subsection \<open>The manager\<close>

lemma local_backend_simps:
  "load (local_backend M self) = LocalFileStorage_load M self"
  "save (local_backend M self) = LocalFileStorage_save M self"
  "delete (local_backend M self) = LocalFileStorage_delete self"
  "exists (local_backend M self) = LocalFileStorage_exists self"
  by (simp_all add: local_backend_def)

lemma create_exists: "exists B s i \<Longrightarrow> ProfileManager_create M B s i data = (Inl ValueError, s)"
  by (simp add: ProfileManager_create_def)

lemma create_invalid:
  "\<not> exists B s i \<Longrightarrow> model_validate M (PyDict data) = None
     \<Longrightarrow> ProfileManager_create M B s i data = (Inl ValidationError, s)"
  by (simp add: ProfileManager_create_def)

lemma create_valid:
  "\<not> exists B s i \<Longrightarrow> model_validate M (PyDict data) = Some p
     \<Longrightarrow> ProfileManager_create M B s i data =
           (case save B s i p of (Inl e, s1) \<Rightarrow> (Inl e, s1) | (Inr u, s1) \<Rightarrow> (Inr p, s1))"
  by (simp add: ProfileManager_create_def)

lemma create_local:
  assumes "\<not> LocalFileStorage_exists self fs i" and "model_validate M (PyDict data) = Some p"
  shows "ProfileManager_create M (local_backend M self) fs i data
           = (Inr p, snd (LocalFileStorage_save M self fs i p))"
  using assms
  by (simp add: create_valid local_backend_simps LocalFileStorage_save_def Let_def
        mkdir_def write_text_def get_file_path_def parent_def split: option.splits)

lemma create_again:
  "ProfileManager_create M (local_backend M self)
     (snd (LocalFileStorage_save M self fs i p)) i data
     = (Inl ValueError, snd (LocalFileStorage_save M self fs i p))"
proof -
  have "LocalFileStorage_exists self (snd (LocalFileStorage_save M self fs i p)) i"
    by (simp add: LocalFileStorage_save_def LocalFileStorage_exists_def path_exists_def
          Let_def mkdir_def write_text_def get_file_path_def parent_def name_def update_conv'
          split: option.splits)
  then show ?thesis
    by (simp add: create_exists local_backend_simps)
qed

text \<open>
  Claim C3. On any backend, \<^verbatim>\<open>create\<close> raises \<^verbatim>\<open>ValueError\<close> (already exists) when the ID
  exists and leaves the state as it is; when the ID does not exist it validates the data
  (a validation failure is raised, nothing is stored), saves the profile under the ID and
  returns it. On the local backend the save succeeds, and a second \<^verbatim>\<open>create\<close> with the
  same ID raises \<^verbatim>\<open>ValueError\<close>.
\<close>

theorem create_semantics:
  "(exists B s i \<longrightarrow> ProfileManager_create M B s i data = (Inl ValueError, s))
   \<and> (\<not> exists B s i \<and> model_validate M (PyDict data) = None \<longrightarrow>
        ProfileManager_create M B s i data = (Inl ValidationError, s))
   \<and> (\<not> exists B s i \<and> model_validate M (PyDict data) = Some p \<longrightarrow>
        ProfileManager_create M B s i data =
          (case save B s i p of (Inl e, s1) \<Rightarrow> (Inl e, s1) | (Inr u, s1) \<Rightarrow> (Inr p, s1)))
   \<and> (\<not> LocalFileStorage_exists self fs i \<and> model_validate M (PyDict data) = Some p \<longrightarrow>
        ProfileManager_create M (local_backend M self) fs i data
          = (Inr p, snd (LocalFileStorage_save M self fs i p))
        \<and> ProfileManager_create M (local_backend M self)
            (snd (LocalFileStorage_save M self fs i p)) i data'
          = (Inl ValueError, snd (LocalFileStorage_save M self fs i p)))"
  by (simp add: create_exists create_invalid create_valid create_local create_again)

theorem create_semantics_witness:
  "exists (local_backend sample_model \<lparr>profiles_dir = ''./profiles''\<rparr>)
      [''./profiles'' \<mapsto> [(''acme.json'', ''Acme|'')]] ''acme''
   \<and> ProfileManager_create sample_model
        (local_backend sample_model \<lparr>profiles_dir = ''./profiles''\<rparr>)
        [''./profiles'' \<mapsto> [(''acme.json'', ''Acme|'')]] ''acme'' [''name'' \<mapsto> ''Acme'']
       = (Inl ValueError, [''./profiles'' \<mapsto> [(''acme.json'', ''Acme|'')]])
   \<and> \<not> exists (local_backend sample_model \<lparr>profiles_dir = ''./profiles''\<rparr>) Map.empty ''acme''
   \<and> model_validate sample_model (PyDict Map.empty) = None
   \<and> ProfileManager_create sample_model
        (local_backend sample_model \<lparr>profiles_dir = ''./profiles''\<rparr>)
        Map.empty ''acme'' Map.empty
       = (Inl ValidationError, Map.empty)
   \<and> \<not> LocalFileStorage_exists \<lparr>profiles_dir = ''./profiles''\<rparr> Map.empty ''acme''
   \<and> model_validate sample_model (PyDict [''name'' \<mapsto> ''Acme'']) = Some (''Acme'', [])
   \<and> fst (ProfileManager_create sample_model
        (local_backend sample_model \<lparr>profiles_dir = ''./profiles''\<rparr>)
        Map.empty ''acme'' [''name'' \<mapsto> ''Acme''])
       = Inr (''Acme'', [])"
  using create_semantics [where M = sample_model
      and self = "\<lparr>profiles_dir = ''./profiles''\<rparr>" and p = "(''Acme'', [])"
      and fs = Map.empty and i = "''acme''" and data' = Map.empty
      and B = "local_backend sample_model \<lparr>profiles_dir = ''./profiles''\<rparr>"
      and s = "[''./profiles'' \<mapsto> [(''acme.json'', ''Acme|'')]]"
      and data = "[''name'' \<mapsto> ''Acme'']"]
    create_semantics [where M = sample_model
      and self = "\<lparr>profiles_dir = ''./profiles''\<rparr>" and p = "(''Acme'', [])"
      and fs = Map.empty and i = "''acme''" and data' = Map.empty
      and B = "local_backend sample_model \<lparr>profiles_dir = ''./profiles''\<rparr>"
      and s = Map.empty and data = Map.empty]
    create_semantics [where M = sample_model
      and self = "\<lparr>profiles_dir = ''./profiles''\<rparr>" and p = "(''Acme'', [])"
      and fs = Map.empty and i = "''acme''" and data' = Map.empty
      and B = "local_backend sample_model \<lparr>profiles_dir = ''./profiles''\<rparr>"
      and s = Map.empty and data = "[''name'' \<mapsto> ''Acme'']"]
  by (simp add: local_backend_simps LocalFileStorage_exists_def path_exists_def
        LocalFileStorage_save_def mkdir_def write_text_def Let_def
        get_file_path_def parent_def name_def sample_model_def sample_validate_def)








subsection \<open>Construction of the blob backend\<close>







subsection \<open>Backend auto-detection\<close>

lemma import_storage_always: "import_storage sdk_installed = Inr True"
  by (simp add: import_storage_def import_azure_storage_def import_azure_sdk_def)

lemma import_azure_storage_flag: "import_azure_storage sdk_installed = Inr sdk_installed"
  by (simp add: import_azure_storage_def import_azure_sdk_def)

lemma auto_detect_local:
  "\<not> spec_blob_conditions True env \<Longrightarrow>
     auto_detect_storage sdk_installed gcc env w =
       (Inr (Local \<lparr>profiles_dir = getenv env ''PROFILES_DIR'' ''./profiles''\<rparr>),
        (mkdir (fst w) (getenv env ''PROFILES_DIR'' ''./profiles''), snd w))"
  by (auto simp: auto_detect_storage_def import_storage_always import_azure_storage_flag
        spec_blob_conditions_def Let_def LocalFileStorage_init_def)

lemma auto_detect_bad_timeout:
  "spec_blob_conditions True env
     \<Longrightarrow> py_int (getenv env ''AZURE_STORAGE_TIMEOUT_SECONDS'' ''30'') = None
     \<Longrightarrow> auto_detect_storage sdk_installed gcc env w = (Inl ValueError, w)"
  by (simp add: auto_detect_storage_def import_storage_always import_azure_storage_flag
        spec_blob_conditions_def Let_def)

lemma auto_detect_blob:
  "spec_blob_conditions True env
     \<Longrightarrow> py_int (getenv env ''AZURE_STORAGE_TIMEOUT_SECONDS'' ''30'') = Some t
     \<Longrightarrow> auto_detect_storage sdk_installed gcc env w =
           (case AzureBlobStorage_init sdk_installed gcc (snd w)
                   (the (env ''AZURE_STORAGE_CONNECTION_STRING''))
                   (getenv env ''AZURE_STORAGE_CONTAINER_NAME'' ''company-profiles'') t of
              (Inl e, svc1) \<Rightarrow> (Inl e, (fst w, svc1))
            | (Inr st, svc1) \<Rightarrow> (Inr (Azure st), (fst w, svc1)))"
  by (simp add: auto_detect_storage_def import_storage_always import_azure_storage_flag
        spec_blob_conditions_def Let_def)

text \<open>
  Without the client library the blob branch is still taken, since the package's flag is
  true whatever is installed, and the constructor raises \<^verbatim>\<open>ImportError\<close>.
\<close>

lemma auto_detect_no_sdk:
  "spec_blob_conditions True env
     \<Longrightarrow> py_int (getenv env ''AZURE_STORAGE_TIMEOUT_SECONDS'' ''30'') = Some t
     \<Longrightarrow> auto_detect_storage False gcc env w = (Inl ImportError, w)"
  by (simp add: auto_detect_blob AzureBlobStorage_init_def)

lemmas eval_defs = spec_blob_conditions_def getenv_def lower_def lower_char_def py_int_def
  strip_def is_space_def digit_value_def

lemma auto_detect_examples:
  "auto_detect_storage True sample_get_container_client
      [''ENVIRONMENT'' \<mapsto> ''Production'',
       ''AZURE_STORAGE_CONNECTION_STRING'' \<mapsto> ''UseDevelopmentStorage=true'']
      (Map.empty, Map.empty)
     = (Inr (Azure \<lparr>connection_string = ''UseDevelopmentStorage=true'',
                      container_name = ''company-profiles'', timeout_seconds = 30\<rparr>),
        (Map.empty, [''company-profiles'' \<mapsto> []]))"
  "auto_detect_storage True sample_get_container_client [''ENVIRONMENT'' \<mapsto> ''production'']
      (Map.empty, Map.empty)
     = (Inr (Local \<lparr>profiles_dir = ''./profiles''\<rparr>), ([''./profiles'' \<mapsto> []], Map.empty))"
  "auto_detect_storage True sample_get_container_client
      [''ENVIRONMENT'' \<mapsto> ''production'',
       ''AZURE_STORAGE_CONNECTION_STRING'' \<mapsto> ''UseDevelopmentStorage=true'',
       ''AZURE_STORAGE_TIMEOUT_SECONDS'' \<mapsto> ''abc'']
      (Map.empty, Map.empty)
     = (Inl ValueError, (Map.empty, Map.empty))"
  by (simp_all add: auto_detect_storage_def import_storage_always import_azure_storage_flag
        eval_defs Let_def mkdir_def LocalFileStorage_init_def AzureBlobStorage_init_def
        ensure_container_exists_def create_container_def sample_get_container_client_def)

text \<open>
  Claim C5. The detector tests the environment name and the credential as the claim says,
  but the availability it tests is the flag of the package \<^verbatim>\<open>storage\<close>, which is true
  also when the client library is missing. In production, with a credential and without
  the library, the conditions of the claim do not hold, yet the detector does not select
  the local backend: it calls the constructor of the blob backend, which raises
  \<^verbatim>\<open>ImportError\<close>, and no directory is created.
\<close>

theorem auto_detect_without_sdk:
  "\<not> spec_blob_conditions False
        [''ENVIRONMENT'' \<mapsto> ''production'',
         ''AZURE_STORAGE_CONNECTION_STRING'' \<mapsto> ''UseDevelopmentStorage=true'']
   \<and> auto_detect_storage False sample_get_container_client
        [''ENVIRONMENT'' \<mapsto> ''production'',
         ''AZURE_STORAGE_CONNECTION_STRING'' \<mapsto> ''UseDevelopmentStorage=true'']
        (Map.empty, Map.empty)
       = (Inl ImportError, (Map.empty, Map.empty))"
  by (simp add: auto_detect_storage_def import_storage_always import_azure_storage_flag
        eval_defs Let_def AzureBlobStorage_init_def)

end
